theory Spec2Isabelle
  imports Main
begin

section \<open>Python values used by \<^verbatim>\<open>combo_app.py\<close>\<close>

text \<open>
  Strings are byte lists holding the UTF-8 encoding of the Python text, so every emoji
  of the source is written as its bytes. The script only concatenates, joins and
  compares strings, which is the same on bytes and on code points.

  A raised exception is a value: its class name and what \<^verbatim>\<open>str(e)\<close> (and so
  \<^verbatim>\<open>f"{e}"\<close>) gives. The type holds the instances of Python's \<^verbatim>\<open>Exception\<close>, the
  ones an \<^verbatim>\<open>except Exception\<close> clause catches.
\<close>

datatype py_exception = PyException (exc_type: string) (exc_str: string)

definition newline :: string where
  "newline = [CHR 0x0A]"

definition apostrophe :: string where
  "apostrophe = [CHR 0x27]"

definition py_repr :: "string \<Rightarrow> string" where
  \<comment> \<open>\<^verbatim>\<open>repr\<close> of a \<^verbatim>\<open>str\<close> that has no quote, backslash or control character in it,
      as the one key the script looks up (\<^verbatim>\<open>'title'\<close>).\<close>
  "py_repr s = apostrophe @ s @ apostrophe"

definition KeyError :: "string \<Rightarrow> py_exception" where
  \<comment> \<open>\<^verbatim>\<open>str(KeyError(k))\<close> is \<^verbatim>\<open>repr(k)\<close>.\<close>
  "KeyError k = PyException ''KeyError'' (py_repr k)"

definition py_str :: "string option \<Rightarrow> string" where
  \<comment> \<open>\<^verbatim>\<open>str(x)\<close> of an optional text: \<^verbatim>\<open>None\<close> prints as its name.\<close>
  "py_str x = (case x of None \<Rightarrow> ''None'' | Some s \<Rightarrow> s)"

definition IndexError :: py_exception where
  "IndexError = PyException ''IndexError'' ''list index out of range''"

fun py_join :: "string \<Rightarrow> string list \<Rightarrow> string" where
  "py_join sep [] = []"
| "py_join sep [x] = x"
| "py_join sep (x # y # ys) = x @ sep @ py_join sep (y # ys)"

fun py_split :: "char \<Rightarrow> string \<Rightarrow> string list" where
  \<comment> \<open>\<^verbatim>\<open>s.split(c)\<close> for a one-character separator: the lines of \<open>s\<close> when \<open>c\<close> is
      the newline.\<close>
  "py_split c [] = [[]]"
| "py_split c (x # xs) =
     (if x = c then [] # py_split c xs
      else (case py_split c xs of l # ls \<Rightarrow> (x # l) # ls | [] \<Rightarrow> [[x]]))"

section \<open>The process environment and the Weaviate client\<close>

type_synonym environ = "string \<rightharpoonup> string"

record weaviate_object =
  properties :: "string \<rightharpoonup> string"

record query_return =
  objects :: "weaviate_object list"

text \<open>
  What \<^verbatim>\<open>_run\<close> and the module's first lines see of the outside: \<^verbatim>\<open>os.environ\<close>, and the
  \<^verbatim>\<open>weaviate\<close> package. Each call into the package returns or raises. \<open>'c\<close> is the
  client handle and \<open>'k\<close> the collection handle.
\<close>

record ('c, 'k) world =
  os_environ :: environ
  import_weaviate :: "py_exception option"
  connect_to_weaviate_cloud ::
    "string option \<Rightarrow> string option \<Rightarrow> string option \<Rightarrow> py_exception + 'c"
  collections_get :: "'c \<Rightarrow> string \<Rightarrow> py_exception + 'k"
  near_text :: "'k \<Rightarrow> string \<Rightarrow> nat \<Rightarrow> py_exception + query_return"

abbreviation connect_result :: "('c, 'k) world \<Rightarrow> py_exception + 'c" where
  \<comment> \<open>What the connect call of lines 47-51 does, with the arguments the script gives it.\<close>
  "connect_result w \<equiv>
     connect_to_weaviate_cloud w (os_environ w ''WEAVIATE_CLUSTER_URL'')
       (os_environ w ''WEAVIATE_API_KEY'') (os_environ w ''OPENAI_API_KEY'')"

abbreviation titles :: "weaviate_object list \<Rightarrow> string option list" where
  \<comment> \<open>The \<^verbatim>\<open>title\<close> property of each object, \<open>None\<close> where it is missing.\<close>
  "titles objs \<equiv> map (\<lambda>obj. properties obj ''title'') objs"

text \<open>
  The calls the script makes outside itself, in the order it makes them. The connect
  call is recorded with its three values: \<^verbatim>\<open>cluster_url\<close>, the key handed to
  \<^verbatim>\<open>Auth.api_key\<close>, and the value of the \<^verbatim>\<open>X-OpenAI-Api-Key\<close> header; \<^verbatim>\<open>os.getenv\<close>
  gives \<^verbatim>\<open>None\<close> for a variable that is not set. \<^verbatim>\<open>OpenAI()\<close>, called with no key,
  takes the key from \<^verbatim>\<open>OPENAI_API_KEY\<close> itself: the read is recorded before the call,
  and the call with the value it found.
\<close>

datatype effect =
    LoadDotenv
  | Getenv string
  | OpikConfigure bool "string option"
  | OpenAIClient "string option"
  | TrackOpenAI
  | TrackCrewAI string
  | ConnectToWeaviateCloud "string option" "string option" "string option"
  | CollectionsGet string
  | NearText string nat

fun is_Getenv :: "effect \<Rightarrow> bool" where
  "is_Getenv (Getenv v) = True"
| "is_Getenv _ = False"

section \<open>Step 1: module initialisation (lines 17-23)\<close>

definition load_dotenv :: "environ \<Rightarrow> environ \<Rightarrow> environ" where
  \<comment> \<open>The entries of the \<^verbatim>\<open>.env\<close> file are added to \<^verbatim>\<open>os.environ\<close>; a variable that is
      already set keeps its value (\<^verbatim>\<open>override=False\<close>, the default).\<close>
  "load_dotenv dotenv env = dotenv ++ env"

text \<open>
  The two library calls of lines 21-22 that look at a key: each returns, or raises on
  the key it is given (\<^verbatim>\<open>opik.configure\<close> with \<^verbatim>\<open>use_local\<close> and the key, the
  \<^verbatim>\<open>OpenAI\<close> client with the key it found in the environment). What they do with a
  key is the libraries' affair and a parameter here.
\<close>

record startup_libs =
  opik_configure :: "bool \<Rightarrow> string option \<Rightarrow> py_exception option"
  openai_client :: "string option \<Rightarrow> py_exception option"

record init_result =
  environ_after :: environ
  init_effects :: "effect list"
  init_raised :: "py_exception option"

definition module_init :: "startup_libs \<Rightarrow> environ \<Rightarrow> environ \<Rightarrow> init_result" where
  \<comment> \<open>Lines 18-23 on the \<^verbatim>\<open>.env\<close> file and the environment of the process. A raise
      ends the start-up: the lines after it do not run.\<close>
  "module_init lib dotenv env =
     (let env' = load_dotenv dotenv env;
          opik_key = env' ''OPIK_API_KEY'';
          fx1 = [LoadDotenv, Getenv ''OPIK_API_KEY'', OpikConfigure False opik_key]
      in case opik_configure lib False opik_key of
           Some e \<Rightarrow> \<lparr>environ_after = env', init_effects = fx1, init_raised = Some e\<rparr>
         | None \<Rightarrow>
             (let openai_key = env' ''OPENAI_API_KEY'';
                  fx2 = fx1 @ [Getenv ''OPENAI_API_KEY'', OpenAIClient openai_key]
              in case openai_client lib openai_key of
                   Some e \<Rightarrow> \<lparr>environ_after = env', init_effects = fx2, init_raised = Some e\<rparr>
                 | None \<Rightarrow>
                     \<lparr>environ_after = env',
                      init_effects = fx2 @ [TrackOpenAI, TrackCrewAI ''Interactive-Workshop''],
                      init_raised = None\<rparr>))"

section \<open>Step 2: the custom Weaviate tool (lines 35-64)\<close>

definition book_marker :: string where
  \<comment> \<open>U+1F4D8 (blue book) and a space.\<close>
  "book_marker = [CHR 0xF0, CHR 0x9F, CHR 0x93, CHR 0x98, CHR 0x20]"

definition error_marker :: string where
  \<comment> \<open>U+274C (cross mark), then the text of line 64.\<close>
  "error_marker = [CHR 0xE2, CHR 0x9D, CHR 0x8C] @ '' Error querying Weaviate: ''"

definition no_books :: string where
  "no_books = ''No books found in Weaviate.''"

definition title_line :: "weaviate_object \<Rightarrow> py_exception + string" where
  \<comment> \<open>\<^verbatim>\<open>f"<marker> {obj.properties['title']}"\<close>: the lookup raises on a missing key.\<close>
  "title_line obj =
     (case properties obj ''title'' of
        None \<Rightarrow> Inl (KeyError ''title'')
      | Some t \<Rightarrow> Inr (book_marker @ t))"

fun title_lines :: "weaviate_object list \<Rightarrow> py_exception + string list" where
  \<comment> \<open>The generator of line 61, consumed front to back by \<^verbatim>\<open>join\<close>.\<close>
  "title_lines [] = Inr []"
| "title_lines (obj # objs) =
     (case title_line obj of
        Inl e \<Rightarrow> Inl e
      | Inr l \<Rightarrow> (case title_lines objs of Inl e \<Rightarrow> Inl e | Inr ls \<Rightarrow> Inr (l # ls)))"

definition try_block :: "('c, 'k) world \<Rightarrow> string \<Rightarrow> effect list \<times> (py_exception + string)" where
  \<comment> \<open>Lines 46-61. The keyword arguments of the connect call are evaluated left to
      right, then the call is made.\<close>
  "try_block w topic =
     (let cluster_url = os_environ w ''WEAVIATE_CLUSTER_URL'';
          api_key = os_environ w ''WEAVIATE_API_KEY'';
          openai_key = os_environ w ''OPENAI_API_KEY'';
          fx1 = [Getenv ''WEAVIATE_CLUSTER_URL'', Getenv ''WEAVIATE_API_KEY'',
                 Getenv ''OPENAI_API_KEY'',
                 ConnectToWeaviateCloud cluster_url api_key openai_key]
      in case connect_to_weaviate_cloud w cluster_url api_key openai_key of
           Inl e \<Rightarrow> (fx1, Inl e)
         | Inr client \<Rightarrow>
             (let fx2 = fx1 @ [CollectionsGet ''Book'']
              in case collections_get w client ''Book'' of
                   Inl e \<Rightarrow> (fx2, Inl e)
                 | Inr collection \<Rightarrow>
                     (let fx3 = fx2 @ [NearText topic 3]
                      in case near_text w collection topic 3 of
                           Inl e \<Rightarrow> (fx3, Inl e)
                         | Inr results \<Rightarrow>
                             if objects results = [] then (fx3, Inr no_books)
                             else (case title_lines (objects results) of
                                     Inl e \<Rightarrow> (fx3, Inl e)
                                   | Inr ls \<Rightarrow> (fx3, Inr (py_join newline ls))))))"

definition CustomWeaviateTool_run ::
  "('c, 'k) world \<Rightarrow> string \<Rightarrow> effect list \<times> (py_exception + string)" where
  \<comment> \<open>\<^verbatim>\<open>CustomWeaviateTool._run\<close>. The two imports of lines 42-43 stand before the
      \<^verbatim>\<open>try\<close>, so a failing import is the one raise that leaves the method. The
      \<^verbatim>\<open>opik.track\<close> decorator logs the call and hands the result through.\<close>
  "CustomWeaviateTool_run w topic =
     (case import_weaviate w of
        Some e \<Rightarrow> ([], Inl e)
      | None \<Rightarrow>
          (case try_block w topic of
             (fx, Inl e) \<Rightarrow> (fx, Inr (error_marker @ exc_str e))
           | (fx, Inr s) \<Rightarrow> (fx, Inr s)))"

definition search :: "('c, 'k) world \<Rightarrow> string \<Rightarrow> py_exception + string" where
  \<comment> \<open>What the caller of the tool gets: the returned string, or the raise.\<close>
  "search w topic = snd (CustomWeaviateTool_run w topic)"

section \<open>Step 3: agents and tasks (lines 71-133)\<close>

text \<open>
  \<^verbatim>\<open>Agent\<close>, \<^verbatim>\<open>Task\<close> and \<^verbatim>\<open>Crew\<close> are the records the script fills in: each
  field is a keyword argument of the source, and \<open>task_output\<close> is the attribute \<^verbatim>\<open>output\<close> the
  engine sets on a task it has run (\<^verbatim>\<open>None\<close> before). The definitions of this step
  give the record each constructor call is asked for; whether the library's constructor
  returns it or raises is a parameter of Step 4.
\<close>

record Tool =
  tool_name :: string
  tool_description :: string
  args_schema :: "string list"

record Agent =
  role :: string
  goal :: string
  backstory :: string
  tools :: "Tool list"
  verbose :: bool
  model :: string

record Task =
  name :: string
  description :: string
  expected_output :: string
  agent :: Agent
  task_output :: "string option"

datatype Process = sequential | hierarchical

record Crew =
  agents :: "Agent list"
  tasks :: "Task list"
  process :: Process
  crew_verbose :: bool

record WorkshopAgentsAndTasks =
  user_query :: string
  weaviate_tool :: Tool
  data_analyst_agent :: Agent
  resource_recommender_agent :: Agent

definition CustomWeaviateTool :: Tool where
  \<comment> \<open>Lines 36-38; the schema \<^verbatim>\<open>WeaviateSearchInput\<close> has the one field \<^verbatim>\<open>topic\<close>.\<close>
  "CustomWeaviateTool =
     \<lparr>tool_name = ''Weaviate Book Search Tool'',
      tool_description = ''Searches Weaviate for relevant books related to a given topic.'',
      args_schema = [''topic'']\<rparr>"

definition create_data_analyst_agent :: "string \<Rightarrow> Agent" where
  \<comment> \<open>Reads \<^verbatim>\<open>self.user_query\<close> only; no tools are passed.\<close>
  "create_data_analyst_agent q =
     \<lparr>role = ''Data Analyst'',
      goal = ''Generate insights and trends about '' @ apostrophe @ q @ apostrophe @ ''.'',
      backstory = ''An experienced data professional skilled in extracting meaning from complex datasets and market data.'',
      tools = [],
      verbose = True,
      model = ''o3-mini''\<rparr>"

definition create_resource_recommender_agent :: "Tool \<Rightarrow> Agent" where
  \<comment> \<open>Reads \<^verbatim>\<open>self.weaviate_tool\<close> only.\<close>
  "create_resource_recommender_agent t =
     \<lparr>role = ''Resource Recommender'',
      goal = ''Provide relevant books and resources based on semantic search.'',
      backstory = ''An expert in research and knowledge systems, skilled at surfacing valuable content using tools like Weaviate.'',
      tools = [t],
      verbose = True,
      model = ''o3-mini''\<rparr>"

definition WorkshopAgentsAndTasks_init :: "string \<Rightarrow> WorkshopAgentsAndTasks" where
  \<comment> \<open>\<^verbatim>\<open>__init__\<close>, lines 72-76.\<close>
  "WorkshopAgentsAndTasks_init q =
     (let t = CustomWeaviateTool
      in \<lparr>user_query = q,
          weaviate_tool = t,
          data_analyst_agent = create_data_analyst_agent q,
          resource_recommender_agent = create_resource_recommender_agent t\<rparr>)"

definition create_data_analysis_task :: "WorkshopAgentsAndTasks \<Rightarrow> Task" where
  "create_data_analysis_task self =
     \<lparr>name = ''Trend Analysis'',
      description = ''Analyze key patterns and trends related to '' @ apostrophe
        @ user_query self @ apostrophe @ '' using your knowledge and reasoning abilities.'',
      expected_output = ''A structured summary with 2-3 key insights or trends.'',
      agent = data_analyst_agent self,
      task_output = None\<rparr>"

definition create_resource_recommendation_task :: "WorkshopAgentsAndTasks \<Rightarrow> Task" where
  "create_resource_recommendation_task self =
     \<lparr>name = ''Book Finder Task'',
      description =
        ''Use only the Weaviate tool to find high-quality books or articles about ''
        @ apostrophe @ user_query self @ apostrophe @ ''. ''
        @ ''You must base your answer strictly on the output returned by the tool and do not use external knowledge or suggestions. ''
        @ ''If the tool does not return any relevant results, say so.'',
      expected_output =
        ''A list of up to 3 recommended books or resources returned from Weaviate, each with a short explanation. ''
        @ ''Do not fabricate or include items not returned by the tool.'',
      agent = resource_recommender_agent self,
      task_output = None\<rparr>"

definition create_workshop_crew :: "WorkshopAgentsAndTasks \<Rightarrow> Crew" where
  "create_workshop_crew self =
     \<lparr>agents = [data_analyst_agent self, resource_recommender_agent self],
      tasks = [create_data_analysis_task self, create_resource_recommendation_task self],
      process = sequential,
      crew_verbose = True\<rparr>"

section \<open>Step 4: the Streamlit page (lines 141-167)\<close>

text \<open>
  One run of the page script: the text in the input box and whether the button was
  pressed come in, the calls on \<^verbatim>\<open>st\<close> and on the crew go out, in order, together
  with the exception that leaves the script, if one does. The \<^verbatim>\<open>crewai\<close> library is a
  parameter: for each constructor, whether it raises on the record it is asked for, and
  the engine behind \<^verbatim>\<open>crew.kickoff()\<close>, which hands back the crew as it left it (the
  tasks with their outputs) and either raises or returns the final result, whose
  \<^verbatim>\<open>str\<close> the page prints.
\<close>

datatype ui_event =
    st_set_page_config string string
  | st_title string
  | st_text_input string
  | st_button string
  | st_info string
  | new_workshop WorkshopAgentsAndTasks
  | new_crew Crew
  | crew_kickoff Crew
  | st_success string
  | st_markdown string
  | st_error string

fun is_st_error :: "ui_event \<Rightarrow> bool" where
  "is_st_error (st_error m) = True"
| "is_st_error _ = False"

fun is_st_markdown :: "ui_event \<Rightarrow> bool" where
  "is_st_markdown (st_markdown body) = True"
| "is_st_markdown _ = False"

type_synonym engine = "Crew \<Rightarrow> Crew \<times> (py_exception + string)"

record crewai =
  tool_init :: "Tool \<Rightarrow> py_exception option"
  agent_init :: "Agent \<Rightarrow> py_exception option"
  task_init :: "Task \<Rightarrow> py_exception option"
  crew_init :: "Crew \<Rightarrow> py_exception option"
  kickoff :: engine

definition build_workshop :: "crewai \<Rightarrow> string \<Rightarrow> py_exception + WorkshopAgentsAndTasks" where
  \<comment> \<open>Line 151, \<^verbatim>\<open>WorkshopAgentsAndTasks(user_query)\<close>: the constructor calls of lines
      74-76 in their order; the first that raises ends the construction.\<close>
  "build_workshop lib q =
     (let self = WorkshopAgentsAndTasks_init q
      in case tool_init lib (weaviate_tool self) of
           Some e \<Rightarrow> Inl e
         | None \<Rightarrow>
             (case agent_init lib (data_analyst_agent self) of
                Some e \<Rightarrow> Inl e
              | None \<Rightarrow>
                  (case agent_init lib (resource_recommender_agent self) of
                     Some e \<Rightarrow> Inl e
                   | None \<Rightarrow> Inr self)))"

definition build_crew :: "crewai \<Rightarrow> WorkshopAgentsAndTasks \<Rightarrow> py_exception + Crew" where
  \<comment> \<open>Line 152, \<^verbatim>\<open>workshop.create_workshop_crew()\<close>: the two \<^verbatim>\<open>Task\<close> calls of line 130,
      then the \<^verbatim>\<open>Crew\<close> call.\<close>
  "build_crew lib self =
     (case task_init lib (create_data_analysis_task self) of
        Some e \<Rightarrow> Inl e
      | None \<Rightarrow>
          (case task_init lib (create_resource_recommendation_task self) of
             Some e \<Rightarrow> Inl e
           | None \<Rightarrow>
               (case crew_init lib (create_workshop_crew self) of
                  Some e \<Rightarrow> Inl e
                | None \<Rightarrow> Inr (create_workshop_crew self))))"

definition page_title :: string where
  \<comment> \<open>U+1F9E0 (brain), then the text of line 142.\<close>
  "page_title = [CHR 0xF0, CHR 0x9F, CHR 0xA7, CHR 0xA0] @ '' CrewAI + Weaviate + Comet''"

definition running_text :: string where
  \<comment> \<open>Line 149, ending in U+23F3 (hourglass).\<close>
  "running_text = ''Running CrewAI Workflow... Please wait '' @ [CHR 0xE2, CHR 0x8F, CHR 0xB3]"

definition success_text :: string where
  \<comment> \<open>Line 156, starting with U+2705 (check mark).\<close>
  "success_text = [CHR 0xE2, CHR 0x9C, CHR 0x85] @ '' Workflow completed successfully!''"

definition analyst_heading :: string where
  \<comment> \<open>Line 159, with U+1F4CA (bar chart).\<close>
  "analyst_heading = ''### '' @ [CHR 0xF0, CHR 0x9F, CHR 0x93, CHR 0x8A] @ '' Data Analyst Output''"

definition recommender_heading :: string where
  \<comment> \<open>Line 163, with U+1F4DA (books).\<close>
  "recommender_heading =
     ''### '' @ [CHR 0xF0, CHR 0x9F, CHR 0x93, CHR 0x9A] @ '' Resource Recommender Output''"

definition wrong_marker :: string where
  \<comment> \<open>Line 167, starting with U+274C (cross mark).\<close>
  "wrong_marker = [CHR 0xE2, CHR 0x9D, CHR 0x8C] @ '' Something went wrong: ''"

definition page_head :: "ui_event list" where
  \<comment> \<open>Lines 141-148: what every run of the script shows.\<close>
  "page_head =
     [st_set_page_config ''CrewAI + Weaviate'' ''centered'',
      st_title page_title,
      st_text_input ''Enter a topic or query you'd like analyzed and researched:'',
      st_button ''Run Analysis'']"

definition run_block :: "crewai \<Rightarrow> string \<Rightarrow> ui_event list \<times> py_exception option" where
  \<comment> \<open>Lines 149-167. Lines 151-152 stand before the \<^verbatim>\<open>try\<close>: what is raised there
      leaves the script. Inside the \<^verbatim>\<open>try\<close>, \<^verbatim>\<open>crew.tasks[0]\<close> raises on an empty list
      once the heading is out.\<close>
  "run_block lib q =
     (case build_workshop lib q of
        Inl e \<Rightarrow> ([st_info running_text], Some e)
      | Inr workshop \<Rightarrow>
          (case build_crew lib workshop of
             Inl e \<Rightarrow> ([st_info running_text, new_workshop workshop], Some e)
           | Inr crew \<Rightarrow>
               (let started = [st_info running_text, new_workshop workshop, new_crew crew,
                               crew_kickoff crew]
                in case kickoff lib crew of
                     (crew', Inl e) \<Rightarrow> (started @ [st_error (wrong_marker @ exc_str e)], None)
                   | (crew', Inr result) \<Rightarrow>
                       (case tasks crew' of
                          [] \<Rightarrow>
                            (started @ [st_success success_text, st_markdown analyst_heading,
                                        st_error (wrong_marker @ exc_str IndexError)],
                             None)
                        | t # _ \<Rightarrow>
                            (started @ [st_success success_text, st_markdown analyst_heading,
                                        st_markdown (py_str (task_output t)),
                                        st_markdown recommender_heading, st_markdown result],
                             None)))))"

definition app :: "crewai \<Rightarrow> bool \<Rightarrow> string \<Rightarrow> ui_event list \<times> py_exception option" where
  \<comment> \<open>Line 148: \<^verbatim>\<open>st.button(...) and user_query\<close>; an empty string is false.\<close>
  "app lib clicked q =
     (if clicked \<and> q \<noteq> []
      then (case run_block lib q of (shown, raised) \<Rightarrow> (page_head @ shown, raised))
      else (page_head, None))"

section \<open>Concrete backends\<close>

text \<open>
  Small worlds on which the theorems below are run: a reachable cluster whose
  \<^verbatim>\<open>Book\<close> collection answers a query by a given function, and a cluster that cannot
  be reached (handles are of type \<open>unit\<close>); start-up libraries that insist on their
  key; a \<^verbatim>\<open>crewai\<close> whose constructors accept what they are given, and one whose
  \<^verbatim>\<open>Agent\<close> constructor does not.
\<close>

definition demo_environ :: environ where
  "demo_environ =
     [''WEAVIATE_CLUSTER_URL'' \<mapsto> ''https://demo.weaviate.cloud'',
      ''WEAVIATE_API_KEY'' \<mapsto> ''wv-key'',
      ''OPENAI_API_KEY'' \<mapsto> ''sk-key'']"

definition book :: "string \<Rightarrow> weaviate_object" where
  "book t = \<lparr>properties = [''title'' \<mapsto> t]\<rparr>"

definition cloud :: "(string \<Rightarrow> nat \<Rightarrow> py_exception + query_return) \<Rightarrow> (unit, unit) world" where
  "cloud answer =
     \<lparr>os_environ = demo_environ,
      import_weaviate = None,
      connect_to_weaviate_cloud = (\<lambda>url key hdr. Inr ()),
      collections_get =
        (\<lambda>c n. if n = ''Book'' then Inr ()
                else Inl (PyException ''WeaviateBaseError'' ''no such collection'')),
      near_text = (\<lambda>k. answer)\<rparr>"

definition ranked :: "weaviate_object list \<Rightarrow> string \<Rightarrow> nat \<Rightarrow> py_exception + query_return" where
  \<comment> \<open>A backend that keeps to the limit of the query: the best \<open>n\<close> matches, in order.\<close>
  "ranked matches q n = Inr \<lparr>objects = take n matches\<rparr>"

definition timeout_error :: py_exception where
  "timeout_error = PyException ''TimeoutError'' ''timed out''"

definition unreachable :: "(unit, unit) world" where
  "unreachable =
     (cloud (ranked []))\<lparr>connect_to_weaviate_cloud := (\<lambda>url key hdr. Inl timeout_error)\<rparr>"

definition idle_engine :: engine where
  \<comment> \<open>An engine that runs both tasks and echoes their names.\<close>
  "idle_engine crew =
     (crew\<lparr>tasks := map (\<lambda>t. t\<lparr>task_output := Some (name t)\<rparr>) (tasks crew)\<rparr>,
      Inr ''done'')"

definition failing_engine :: engine where
  \<comment> \<open>An engine whose first task completes and whose second task fails.\<close>
  "failing_engine crew =
     (crew\<lparr>tasks := (case tasks crew of
                        [] \<Rightarrow> []
                      | t # ts \<Rightarrow> t\<lparr>task_output := Some ''three trends''\<rparr> # ts)\<rparr>,
      Inl (PyException ''RateLimitError'' ''rate limit reached''))"

definition strict_startup :: startup_libs where
  \<comment> \<open>Both libraries raise when there is no key.\<close>
  "strict_startup =
     \<lparr>opik_configure =
        (\<lambda>use_local k. case k of
           None \<Rightarrow> Some (PyException ''ConfigurationError'' ''no API key'')
         | Some _ \<Rightarrow> None),
      openai_client =
        (\<lambda>k. case k of
           None \<Rightarrow> Some (PyException ''OpenAIError'' ''no API key'')
         | Some _ \<Rightarrow> None)\<rparr>"

definition accepting :: "engine \<Rightarrow> crewai" where
  "accepting run =
     \<lparr>tool_init = (\<lambda>t. None), agent_init = (\<lambda>a. None), task_init = (\<lambda>t. None),
      crew_init = (\<lambda>c. None), kickoff = run\<rparr>"

definition validation_error :: py_exception where
  "validation_error = PyException ''ValidationError'' ''1 validation error for Agent''"

definition rejecting_agents :: "engine \<Rightarrow> crewai" where
  "rejecting_agents run = (accepting run)\<lparr>agent_init := (\<lambda>a. Some validation_error)\<rparr>"

section \<open>Properties of the Weaviate tool\<close>

subsection \<open>Formatting the titles\<close>

lemma title_lines_Some:
  "map (\<lambda>obj. properties obj ''title'') objs = map Some ts \<Longrightarrow>
   title_lines objs = Inr (map ((@) book_marker) ts)"
  by (induction objs arbitrary: ts) (auto simp: title_line_def)

lemma title_lines_None:
  "\<exists>obj \<in> set objs. properties obj ''title'' = None \<Longrightarrow>
   title_lines objs = Inl (KeyError ''title'')"
proof (induction objs)
  case Nil
  then show ?case by simp
next
  case (Cons obj objs)
  show ?case
  proof (cases "properties obj ''title''")
    case None
    then show ?thesis by (simp add: title_line_def)
  next
    case (Some t)
    with Cons.prems have "\<exists>obj \<in> set objs. properties obj ''title'' = None"
      by auto
    with Cons.IH have "title_lines objs = Inl (KeyError ''title'')" .
    with Some show ?thesis by (simp add: title_line_def)
  qed
qed

lemma py_split_no_sep: "c \<notin> set l \<Longrightarrow> py_split c l = [l]"
  by (induction l) auto

lemma py_split_append:
  "c \<notin> set l \<Longrightarrow> py_split c (l @ c # s) = l # py_split c s"
  by (induction l) auto

lemma py_split_join:
  "ls \<noteq> [] \<Longrightarrow> \<forall>l \<in> set ls. c \<notin> set l \<Longrightarrow> py_split c (py_join [c] ls) = ls"
  by (induction "[c]" ls rule: py_join.induct) (auto simp: py_split_no_sep py_split_append)

lemma book_marker_no_newline: "CHR 0x0A \<notin> set book_marker"
  by (simp add: book_marker_def)

subsection \<open>The method as a whole\<close>

text \<open>
  Once the two imports have succeeded the method returns a string on every path; a
  failing import is the only raise that leaves it.
\<close>

lemma run_after_import:
  "import_weaviate w = None \<Longrightarrow>
   CustomWeaviateTool_run w topic =
     (case try_block w topic of
        (fx, Inl e) \<Rightarrow> (fx, Inr (error_marker @ exc_str e))
      | (fx, Inr s) \<Rightarrow> (fx, Inr s))"
  by (simp add: CustomWeaviateTool_run_def)

lemma search_returns_a_string:
  "import_weaviate w = None \<Longrightarrow> \<exists>s. search w topic = Inr s"
  by (auto simp: search_def CustomWeaviateTool_run_def split: prod.splits sum.splits)

lemma failed_import_leaves_the_method:
  "import_weaviate w = Some e \<Longrightarrow> CustomWeaviateTool_run w topic = ([], Inl e)"
  by (simp add: CustomWeaviateTool_run_def)

lemma run_effects:
  "fst (CustomWeaviateTool_run w topic) =
     (case import_weaviate w of Some e \<Rightarrow> [] | None \<Rightarrow> fst (try_block w topic))"
  by (simp add: CustomWeaviateTool_run_def split: option.splits prod.splits sum.splits)

lemma try_block_effects_cases:
  "fst (try_block w topic) \<in>
     {[Getenv ''WEAVIATE_CLUSTER_URL'', Getenv ''WEAVIATE_API_KEY'', Getenv ''OPENAI_API_KEY'',
       ConnectToWeaviateCloud (os_environ w ''WEAVIATE_CLUSTER_URL'')
         (os_environ w ''WEAVIATE_API_KEY'') (os_environ w ''OPENAI_API_KEY'')],
      [Getenv ''WEAVIATE_CLUSTER_URL'', Getenv ''WEAVIATE_API_KEY'', Getenv ''OPENAI_API_KEY'',
       ConnectToWeaviateCloud (os_environ w ''WEAVIATE_CLUSTER_URL'')
         (os_environ w ''WEAVIATE_API_KEY'') (os_environ w ''OPENAI_API_KEY''),
       CollectionsGet ''Book''],
      [Getenv ''WEAVIATE_CLUSTER_URL'', Getenv ''WEAVIATE_API_KEY'', Getenv ''OPENAI_API_KEY'',
       ConnectToWeaviateCloud (os_environ w ''WEAVIATE_CLUSTER_URL'')
         (os_environ w ''WEAVIATE_API_KEY'') (os_environ w ''OPENAI_API_KEY''),
       CollectionsGet ''Book'', NearText topic 3]}"
  by (simp add: try_block_def Let_def split: sum.splits)

lemma run_effects_queries:
  "\<forall>fx \<in> set (fst (CustomWeaviateTool_run w topic)).
      (\<forall>n. fx = CollectionsGet n \<longrightarrow> n = ''Book'')
    \<and> (\<forall>q l. fx = NearText q l \<longrightarrow> q = topic \<and> l = 3)"
proof (cases "import_weaviate w")
  case None
  then have "fst (CustomWeaviateTool_run w topic) = fst (try_block w topic)"
    by (simp add: run_effects)
  with try_block_effects_cases [of w topic] show ?thesis
    by auto
next
  case (Some e)
  then show ?thesis by (simp add: run_effects)
qed

lemma run_effects_full:
  assumes "import_weaviate w = None"
    and "connect_result w = Inr c"
    and "collections_get w c ''Book'' = Inr k"
  shows "fst (CustomWeaviateTool_run w topic) =
           [Getenv ''WEAVIATE_CLUSTER_URL'', Getenv ''WEAVIATE_API_KEY'',
            Getenv ''OPENAI_API_KEY'',
            ConnectToWeaviateCloud (os_environ w ''WEAVIATE_CLUSTER_URL'')
              (os_environ w ''WEAVIATE_API_KEY'') (os_environ w ''OPENAI_API_KEY''),
            CollectionsGet ''Book'', NearText topic 3]"
  using assms
  by (simp add: run_effects try_block_def Let_def split: sum.splits)

lemma try_block_getenvs:
  "filter is_Getenv (fst (try_block w topic)) =
     [Getenv ''WEAVIATE_CLUSTER_URL'', Getenv ''WEAVIATE_API_KEY'', Getenv ''OPENAI_API_KEY'']"
  by (simp add: try_block_def Let_def split: sum.splits)

lemma try_block_starts:
  "take 4 (fst (try_block w topic)) =
     [Getenv ''WEAVIATE_CLUSTER_URL'', Getenv ''WEAVIATE_API_KEY'', Getenv ''OPENAI_API_KEY'',
      ConnectToWeaviateCloud (os_environ w ''WEAVIATE_CLUSTER_URL'')
        (os_environ w ''WEAVIATE_API_KEY'') (os_environ w ''OPENAI_API_KEY'')]"
  by (simp add: try_block_def Let_def split: sum.splits)

lemma search_titles:
  assumes "import_weaviate w = None"
    and "connect_result w = Inr c"
    and "collections_get w c ''Book'' = Inr k"
    and "near_text w k topic 3 = Inr r"
    and "titles (objects r) = map Some ts"
    and "ts \<noteq> []"
  shows "search w topic = Inr (py_join newline (map ((@) book_marker) ts))"
proof -
  from assms(5,6) have "objects r \<noteq> []" by auto
  moreover from assms(5) have "title_lines (objects r) = Inr (map ((@) book_marker) ts)"
    by (rule title_lines_Some)
  ultimately show ?thesis
    using assms(1-4)
    by (simp add: search_def CustomWeaviateTool_run_def try_block_def)
qed

subsection \<open>Errors of the backend\<close>

text \<open>
  Claim C1. Whatever exception the connect call, the collection lookup or the
  \<^verbatim>\<open>near_text\<close> query raises inside the adapter, \<open>search\<close> returns the string made
  of the error marker \<^verbatim>\<open>"<cross mark> Error querying Weaviate: "\<close> and the message of
  the exception; the exception does not reach the caller.
\<close>

theorem search_backend_exception_becomes_string:
  assumes "import_weaviate w = None"
    and "connect_result w = Inl e
       \<or> (\<exists>c. connect_result w = Inr c \<and>
              (collections_get w c ''Book'' = Inl e
             \<or> (\<exists>k. collections_get w c ''Book'' = Inr k \<and> near_text w k topic 3 = Inl e)))"
  shows "search w topic = Inr (error_marker @ exc_str e)"
  using assms
  by (auto simp: search_def CustomWeaviateTool_run_def try_block_def Let_def)

theorem search_backend_exception_witness:
  "import_weaviate unreachable = None
   \<and> connect_result unreachable = Inl timeout_error
   \<and> search unreachable ''quantum computing'' = Inr (error_marker @ ''timed out'')"
  using search_backend_exception_becomes_string
          [of unreachable timeout_error "''quantum computing''"]
  by (simp add: unreachable_def cloud_def timeout_error_def)

text \<open>
  Claim C10. When the backend answers with a non-empty result set in which some
  object has no \<^verbatim>\<open>title\<close> property, the \<^verbatim>\<open>KeyError\<close> of the lookup is caught by the
  adapter's handler: \<open>search\<close> returns the error marker followed by \<^verbatim>\<open>'title'\<close>, the
  message of that \<^verbatim>\<open>KeyError\<close>, and does not raise.
\<close>

theorem missing_title_becomes_error_string:
  assumes "import_weaviate w = None"
    and "connect_result w = Inr c"
    and "collections_get w c ''Book'' = Inr k"
    and "near_text w k topic 3 = Inr r"
    and "\<exists>obj \<in> set (objects r). properties obj ''title'' = None"
  shows "search w topic = Inr (error_marker @ apostrophe @ ''title'' @ apostrophe)"
proof -
  from assms(5) have "objects r \<noteq> []" by auto
  moreover from assms(5) have "title_lines (objects r) = Inl (KeyError ''title'')"
    by (rule title_lines_None)
  ultimately show ?thesis
    using assms(1-4)
    by (simp add: search_def CustomWeaviateTool_run_def try_block_def KeyError_def py_repr_def)
qed

theorem missing_title_witness:
  "properties \<lparr>properties = [''author'' \<mapsto> ''N. N.'']\<rparr> ''title'' = None
   \<and> search (cloud (ranked [book ''Book A'', \<lparr>properties = [''author'' \<mapsto> ''N. N.'']\<rparr>]))
        ''climate change''
       = Inr (error_marker @ apostrophe @ ''title'' @ apostrophe)"
proof -
  let ?bad = "\<lparr>properties = [''author'' \<mapsto> ''N. N.'']\<rparr>"
  let ?w = "cloud (ranked [book ''Book A'', ?bad])"
  have imp: "import_weaviate ?w = None"
    and con: "connect_result ?w = Inr ()"
    and col: "collections_get ?w () ''Book'' = Inr ()"
    and qry: "near_text ?w () ''climate change'' 3 = Inr \<lparr>objects = [book ''Book A'', ?bad]\<rparr>"
    by (simp_all add: cloud_def ranked_def)
  have none: "properties ?bad ''title'' = None"
    by simp
  then have "\<exists>obj \<in> set (objects \<lparr>objects = [book ''Book A'', ?bad]\<rparr>).
               properties obj ''title'' = None"
    by simp
  with imp con col qry
  have "search ?w ''climate change'' = Inr (error_marker @ apostrophe @ ''title'' @ apostrophe)"
    by (rule missing_title_becomes_error_string)
  with none show ?thesis by blast
qed

subsection \<open>Results of the backend\<close>

text \<open>
  Claim C2. When the backend answers the query with an empty result set, \<open>search\<close>
  returns exactly \<^verbatim>\<open>"No books found in Weaviate."\<close>: not the empty string, and no
  raise.
\<close>

theorem empty_result_set_gives_no_books:
  assumes "import_weaviate w = None"
    and "connect_result w = Inr c"
    and "collections_get w c ''Book'' = Inr k"
    and "near_text w k topic 3 = Inr r"
    and "objects r = []"
  shows "search w topic = Inr ''No books found in Weaviate.''
         \<and> search w topic \<noteq> Inr []
         \<and> (\<forall>e. search w topic \<noteq> Inl e)"
  using assms
  by (simp add: search_def CustomWeaviateTool_run_def try_block_def no_books_def)

theorem empty_result_set_witness:
  "near_text (cloud (ranked [])) () ''climate change'' 3 = Inr \<lparr>objects = []\<rparr>
   \<and> search (cloud (ranked [])) ''climate change'' = Inr ''No books found in Weaviate.''"
  using empty_result_set_gives_no_books
          [of "cloud (ranked [])" "()" "()" "''climate change''" "\<lparr>objects = []\<rparr>"]
  by (simp add: cloud_def ranked_def)

text \<open>
  Claim C3, amended. For a backend response of one to three objects (indeed any
  non-empty response) in which every object has a title and no title holds a newline
  character, \<open>search\<close> returns the titles joined by newlines, each behind the marker
  \<^verbatim>\<open>"<blue book> "\<close>, in the order of the response; split at its newlines the output
  has exactly one line per object. The response \<^verbatim>\<open>["Book A", "Book B"]\<close> gives
  \<^verbatim>\<open>"<blue book> Book A\n<blue book> Book B"\<close>.

  As first stated the claim counts the lines of the output for every response. The
  adapter copies a title as it is, so a title with a newline in it gives more lines than
  objects, and a line without the marker: the counterexample has one object and two
  lines.
\<close>

theorem titles_become_marked_lines:
  assumes "import_weaviate w = None"
    and "connect_result w = Inr c"
    and "collections_get w c ''Book'' = Inr k"
    and "near_text w k topic 3 = Inr r"
    and "titles (objects r) = map Some ts"
    and "ts \<noteq> []"
    and "\<forall>t \<in> set ts. CHR 0x0A \<notin> set t"
  shows "search w topic = Inr (py_join newline (map ((@) book_marker) ts))
         \<and> py_split (CHR 0x0A) (py_join newline (map ((@) book_marker) ts))
             = map ((@) book_marker) ts
         \<and> length (py_split (CHR 0x0A) (py_join newline (map ((@) book_marker) ts)))
             = length (objects r)"
proof -
  have out: "search w topic = Inr (py_join newline (map ((@) book_marker) ts))"
    using assms(1-6) by (rule search_titles)
  have "map ((@) book_marker) ts \<noteq> []"
    using assms(6) by simp
  moreover have "\<forall>l \<in> set (map ((@) book_marker) ts). CHR 0x0A \<notin> set l"
    using assms(7) book_marker_no_newline by auto
  ultimately have split:
    "py_split (CHR 0x0A) (py_join newline (map ((@) book_marker) ts)) = map ((@) book_marker) ts"
    unfolding newline_def by (rule py_split_join)
  have "length (objects r) = length ts"
    using assms(5) by (metis length_map)
  with out split show ?thesis by simp
qed

theorem titles_become_marked_lines_witness:
  "titles [book ''Book A'', book ''Book B''] = map Some [''Book A'', ''Book B'']
   \<and> search (cloud (ranked [book ''Book A'', book ''Book B''])) ''climate change''
       = Inr (book_marker @ ''Book A'' @ newline @ book_marker @ ''Book B'')
   \<and> py_split (CHR 0x0A) (book_marker @ ''Book A'' @ newline @ book_marker @ ''Book B'')
       = [book_marker @ ''Book A'', book_marker @ ''Book B'']"
  using titles_become_marked_lines
          [of "cloud (ranked [book ''Book A'', book ''Book B''])" "()" "()" "''climate change''"
              "\<lparr>objects = [book ''Book A'', book ''Book B'']\<rparr>" "[''Book A'', ''Book B'']"]
  by (simp add: cloud_def ranked_def book_def newline_def)

theorem title_with_newline_counterexample:
  "titles [book (''Book A'' @ newline @ ''Part 2'')] = [Some (''Book A'' @ newline @ ''Part 2'')]
   \<and> search (cloud (ranked [book (''Book A'' @ newline @ ''Part 2'')])) ''climate change''
       = Inr (book_marker @ ''Book A'' @ newline @ ''Part 2'')
   \<and> py_split (CHR 0x0A) (book_marker @ ''Book A'' @ newline @ ''Part 2'')
       = [book_marker @ ''Book A'', ''Part 2'']
   \<and> length (py_split (CHR 0x0A) (book_marker @ ''Book A'' @ newline @ ''Part 2''))
       \<noteq> length [book (''Book A'' @ newline @ ''Part 2'')]"
  by (simp add: search_def CustomWeaviateTool_run_def try_block_def cloud_def ranked_def
        book_def title_line_def newline_def book_marker_def)

text \<open>
  Claim C4. In every run of the adapter each collection lookup names \<^verbatim>\<open>Book\<close> and each
  query carries the topic and the limit 3. When the cluster is reached the calls are
  the three environment reads, the connect call, one lookup of \<^verbatim>\<open>Book\<close> and one
  \<^verbatim>\<open>near_text\<close> query with limit 3. The adapter prints every object of the response
  it gets, in the order it gets them, whatever their number; so when the backend keeps
  to the limit and answers with the first three of its matches, exactly these three
  titles are printed, in that order.
\<close>

theorem query_is_book_limit_3_and_output_is_untouched:
  "(\<forall>fx \<in> set (fst (CustomWeaviateTool_run w topic)).
       (\<forall>n. fx = CollectionsGet n \<longrightarrow> n = ''Book'')
     \<and> (\<forall>q l. fx = NearText q l \<longrightarrow> q = topic \<and> l = 3))
   \<and> (import_weaviate w = None \<longrightarrow> connect_result w = Inr c \<longrightarrow>
        collections_get w c ''Book'' = Inr k \<longrightarrow>
          fst (CustomWeaviateTool_run w topic) =
            [Getenv ''WEAVIATE_CLUSTER_URL'', Getenv ''WEAVIATE_API_KEY'',
             Getenv ''OPENAI_API_KEY'',
             ConnectToWeaviateCloud (os_environ w ''WEAVIATE_CLUSTER_URL'')
               (os_environ w ''WEAVIATE_API_KEY'') (os_environ w ''OPENAI_API_KEY''),
             CollectionsGet ''Book'', NearText topic 3]
        \<and> (near_text w k topic 3 = Inr r \<longrightarrow> titles (objects r) = map Some ts \<longrightarrow>
             ts \<noteq> [] \<longrightarrow>
               search w topic = Inr (py_join newline (map ((@) book_marker) ts)))
        \<and> (near_text w k topic 3 = Inr \<lparr>objects = take 3 matches\<rparr> \<longrightarrow>
             titles matches = map Some ms \<longrightarrow> ms \<noteq> [] \<longrightarrow>
               search w topic = Inr (py_join newline (map ((@) book_marker) (take 3 ms)))))"
proof (intro conjI impI)
  show "\<forall>fx \<in> set (fst (CustomWeaviateTool_run w topic)).
          (\<forall>n. fx = CollectionsGet n \<longrightarrow> n = ''Book'')
        \<and> (\<forall>q l. fx = NearText q l \<longrightarrow> q = topic \<and> l = 3)"
    by (rule run_effects_queries)
next
  assume "import_weaviate w = None" "connect_result w = Inr c"
    "collections_get w c ''Book'' = Inr k"
  then show "fst (CustomWeaviateTool_run w topic) =
         [Getenv ''WEAVIATE_CLUSTER_URL'', Getenv ''WEAVIATE_API_KEY'',
          Getenv ''OPENAI_API_KEY'',
          ConnectToWeaviateCloud (os_environ w ''WEAVIATE_CLUSTER_URL'')
            (os_environ w ''WEAVIATE_API_KEY'') (os_environ w ''OPENAI_API_KEY''),
          CollectionsGet ''Book'', NearText topic 3]"
    by (rule run_effects_full)
next
  assume "import_weaviate w = None" "connect_result w = Inr c"
    "collections_get w c ''Book'' = Inr k"
    "near_text w k topic 3 = Inr r" "titles (objects r) = map Some ts" "ts \<noteq> []"
  then show "search w topic = Inr (py_join newline (map ((@) book_marker) ts))"
    by (rule search_titles)
next
  assume reach: "import_weaviate w = None" "connect_result w = Inr c"
    "collections_get w c ''Book'' = Inr k"
    and q: "near_text w k topic 3 = Inr \<lparr>objects = take 3 matches\<rparr>"
    and t: "titles matches = map Some ms" and ne: "ms \<noteq> []"
  from t have "titles (take 3 matches) = map Some (take 3 ms)"
    by (metis take_map)
  then have "titles (objects \<lparr>objects = take 3 matches\<rparr>) = map Some (take 3 ms)"
    by simp
  moreover from ne have "take 3 ms \<noteq> []"
    by (cases ms) simp_all
  ultimately show "search w topic = Inr (py_join newline (map ((@) book_marker) (take 3 ms)))"
    using search_titles [OF reach q] by blast
qed

theorem query_is_book_limit_3_witness:
  "fst (CustomWeaviateTool_run
          (cloud (ranked [book ''A'', book ''B'', book ''C'', book ''D'', book ''E'']))
          ''climate change'') =
     [Getenv ''WEAVIATE_CLUSTER_URL'', Getenv ''WEAVIATE_API_KEY'', Getenv ''OPENAI_API_KEY'',
      ConnectToWeaviateCloud (Some ''https://demo.weaviate.cloud'') (Some ''wv-key'')
        (Some ''sk-key''),
      CollectionsGet ''Book'', NearText ''climate change'' 3]
   \<and> search (cloud (ranked [book ''A'', book ''B'', book ''C'', book ''D'', book ''E'']))
        ''climate change''
       = Inr (book_marker @ ''A'' @ newline @ book_marker @ ''B'' @ newline @ book_marker @ ''C'')"
proof -
  let ?ms = "[''A'', ''B'', ''C'', ''D'', ''E'']"
  let ?matches = "map book ?ms"
  let ?w = "cloud (ranked ?matches)"
  have imp: "import_weaviate ?w = None"
    and con: "connect_result ?w = Inr ()"
    and col: "collections_get ?w () ''Book'' = Inr ()"
    and qry: "near_text ?w () ''climate change'' 3 = Inr \<lparr>objects = take 3 ?matches\<rparr>"
    by (simp_all add: cloud_def ranked_def)
  have tit: "titles ?matches = map Some ?ms"
    by (simp add: book_def)
  have env: "os_environ ?w ''WEAVIATE_CLUSTER_URL'' = Some ''https://demo.weaviate.cloud''"
    "os_environ ?w ''WEAVIATE_API_KEY'' = Some ''wv-key''"
    "os_environ ?w ''OPENAI_API_KEY'' = Some ''sk-key''"
    by (simp_all add: cloud_def demo_environ_def)
  note all = query_is_book_limit_3_and_output_is_untouched
               [where w = ?w and topic = "''climate change''" and matches = ?matches
                  and ms = ?ms,
                THEN conjunct2, rule_format, OF imp con col]
  have fx: "fst (CustomWeaviateTool_run ?w ''climate change'') =
     [Getenv ''WEAVIATE_CLUSTER_URL'', Getenv ''WEAVIATE_API_KEY'', Getenv ''OPENAI_API_KEY'',
      ConnectToWeaviateCloud (Some ''https://demo.weaviate.cloud'') (Some ''wv-key'')
        (Some ''sk-key''),
      CollectionsGet ''Book'', NearText ''climate change'' 3]"
    using all [THEN conjunct1] by (simp only: env)
  have "search ?w ''climate change''
              = Inr (py_join newline (map ((@) book_marker) (take 3 ?ms)))"
    using all [THEN conjunct2, THEN conjunct2, rule_format, OF qry tit]
    by simp
  then have out: "search ?w ''climate change''
       = Inr (book_marker @ ''A'' @ newline @ book_marker @ ''B'' @ newline @ book_marker @ ''C'')"
    by simp
  from fx out show ?thesis by simp
qed

subsection \<open>Reading the environment\<close>

lemma module_init_effects_cases:
  "init_effects (module_init lib dotenv env) \<in>
     {[LoadDotenv, Getenv ''OPIK_API_KEY'',
       OpikConfigure False (load_dotenv dotenv env ''OPIK_API_KEY'')],
      [LoadDotenv, Getenv ''OPIK_API_KEY'',
       OpikConfigure False (load_dotenv dotenv env ''OPIK_API_KEY''),
       Getenv ''OPENAI_API_KEY'', OpenAIClient (load_dotenv dotenv env ''OPENAI_API_KEY'')],
      [LoadDotenv, Getenv ''OPIK_API_KEY'',
       OpikConfigure False (load_dotenv dotenv env ''OPIK_API_KEY''),
       Getenv ''OPENAI_API_KEY'', OpenAIClient (load_dotenv dotenv env ''OPENAI_API_KEY''),
       TrackOpenAI, TrackCrewAI ''Interactive-Workshop'']}"
  by (simp add: module_init_def Let_def split: option.splits)

lemma module_init_completed:
  "init_raised (module_init lib dotenv env) = None \<Longrightarrow>
   init_effects (module_init lib dotenv env) =
     [LoadDotenv, Getenv ''OPIK_API_KEY'',
      OpikConfigure False (load_dotenv dotenv env ''OPIK_API_KEY''),
      Getenv ''OPENAI_API_KEY'', OpenAIClient (load_dotenv dotenv env ''OPENAI_API_KEY''),
      TrackOpenAI, TrackCrewAI ''Interactive-Workshop'']"
  by (simp add: module_init_def Let_def split: option.splits)

text \<open>
  Claim C8, amended. The tracing key \<^verbatim>\<open>OPIK_API_KEY\<close> and the language-model key
  \<^verbatim>\<open>OPENAI_API_KEY\<close> are read at start-up: the first by \<^verbatim>\<open>os.getenv\<close> on line 21 in
  every start-up, the second by the \<^verbatim>\<open>OpenAI\<close> client of line 22, so that a start-up
  that completes has read exactly these two, after \<^verbatim>\<open>load_dotenv\<close>, and has handed
  each library the value found. The cluster URL \<^verbatim>\<open>WEAVIATE_CLUSTER_URL\<close> and the key
  \<^verbatim>\<open>WEAVIATE_API_KEY\<close> are never read at start-up: they are read inside the adapter at
  the start of every search, where \<^verbatim>\<open>OPENAI_API_KEY\<close> is read once more, and the connect
  call is given the values the environment holds at that moment.

  As first stated the claim has all four variables read at start-up and not later. The
  counterexample is a completed start-up that does not read \<^verbatim>\<open>WEAVIATE_CLUSTER_URL\<close>
  and a search that does.
\<close>

theorem environment_is_read_at_startup_and_on_every_search:
  "Getenv ''OPIK_API_KEY'' \<in> set (init_effects (module_init lib dotenv env))
   \<and> Getenv ''WEAVIATE_CLUSTER_URL'' \<notin> set (init_effects (module_init lib dotenv env))
   \<and> Getenv ''WEAVIATE_API_KEY'' \<notin> set (init_effects (module_init lib dotenv env))
   \<and> (init_raised (module_init lib dotenv env) = None \<longrightarrow>
        filter is_Getenv (init_effects (module_init lib dotenv env)) =
          [Getenv ''OPIK_API_KEY'', Getenv ''OPENAI_API_KEY'']
      \<and> OpikConfigure False (load_dotenv dotenv env ''OPIK_API_KEY'')
          \<in> set (init_effects (module_init lib dotenv env))
      \<and> OpenAIClient (load_dotenv dotenv env ''OPENAI_API_KEY'')
          \<in> set (init_effects (module_init lib dotenv env)))
   \<and> (import_weaviate w = None \<longrightarrow>
        filter is_Getenv (fst (CustomWeaviateTool_run w topic)) =
          [Getenv ''WEAVIATE_CLUSTER_URL'', Getenv ''WEAVIATE_API_KEY'',
           Getenv ''OPENAI_API_KEY'']
      \<and> take 4 (fst (CustomWeaviateTool_run w topic)) =
          [Getenv ''WEAVIATE_CLUSTER_URL'', Getenv ''WEAVIATE_API_KEY'',
           Getenv ''OPENAI_API_KEY'',
           ConnectToWeaviateCloud (os_environ w ''WEAVIATE_CLUSTER_URL'')
             (os_environ w ''WEAVIATE_API_KEY'') (os_environ w ''OPENAI_API_KEY'')])"
proof -
  have startup:
    "Getenv ''OPIK_API_KEY'' \<in> set (init_effects (module_init lib dotenv env))
     \<and> Getenv ''WEAVIATE_CLUSTER_URL'' \<notin> set (init_effects (module_init lib dotenv env))
     \<and> Getenv ''WEAVIATE_API_KEY'' \<notin> set (init_effects (module_init lib dotenv env))"
    using module_init_effects_cases [of lib dotenv env] by auto
  have completed:
    "filter is_Getenv (init_effects (module_init lib dotenv env)) =
          [Getenv ''OPIK_API_KEY'', Getenv ''OPENAI_API_KEY'']
      \<and> OpikConfigure False (load_dotenv dotenv env ''OPIK_API_KEY'')
          \<in> set (init_effects (module_init lib dotenv env))
      \<and> OpenAIClient (load_dotenv dotenv env ''OPENAI_API_KEY'')
          \<in> set (init_effects (module_init lib dotenv env))"
    if "init_raised (module_init lib dotenv env) = None"
    by (simp add: module_init_completed [OF that])
  have later: "fst (CustomWeaviateTool_run w topic) = fst (try_block w topic)"
    if "import_weaviate w = None"
    using that by (simp add: run_effects)
  show ?thesis
    using startup completed by (simp add: later try_block_getenvs try_block_starts)
qed

theorem environment_reads_witness:
  "init_raised (module_init strict_startup [''OPIK_API_KEY'' \<mapsto> ''opik-key''] demo_environ)
     = None
   \<and> import_weaviate unreachable = None
   \<and> filter is_Getenv
        (init_effects (module_init strict_startup [''OPIK_API_KEY'' \<mapsto> ''opik-key'']
           demo_environ))
       = [Getenv ''OPIK_API_KEY'', Getenv ''OPENAI_API_KEY'']
   \<and> OpenAIClient (Some ''sk-key'')
       \<in> set (init_effects (module_init strict_startup [''OPIK_API_KEY'' \<mapsto> ''opik-key'']
                 demo_environ))
   \<and> filter is_Getenv (fst (CustomWeaviateTool_run unreachable ''quantum computing'')) =
       [Getenv ''WEAVIATE_CLUSTER_URL'', Getenv ''WEAVIATE_API_KEY'', Getenv ''OPENAI_API_KEY'']
   \<and> fst (CustomWeaviateTool_run unreachable ''quantum computing'') ! 3 =
       ConnectToWeaviateCloud (Some ''https://demo.weaviate.cloud'') (Some ''wv-key'')
         (Some ''sk-key'')"
proof -
  let ?dotenv = "[''OPIK_API_KEY'' \<mapsto> ''opik-key'']"
  let ?init = "module_init strict_startup ?dotenv demo_environ"
  have keys: "load_dotenv ?dotenv demo_environ ''OPIK_API_KEY'' = Some ''opik-key''"
    "load_dotenv ?dotenv demo_environ ''OPENAI_API_KEY'' = Some ''sk-key''"
    by (simp_all add: load_dotenv_def demo_environ_def map_add_def)
  have ok: "init_raised ?init = None"
    by (simp add: module_init_def Let_def strict_startup_def keys)
  have imp: "import_weaviate unreachable = None"
    by (simp add: unreachable_def cloud_def)
  have env: "os_environ unreachable ''WEAVIATE_CLUSTER_URL'' = Some ''https://demo.weaviate.cloud''"
    "os_environ unreachable ''WEAVIATE_API_KEY'' = Some ''wv-key''"
    "os_environ unreachable ''OPENAI_API_KEY'' = Some ''sk-key''"
    by (simp_all add: unreachable_def cloud_def demo_environ_def)
  note all = environment_is_read_at_startup_and_on_every_search
               [of strict_startup ?dotenv demo_environ unreachable "''quantum computing''"]
  note startup = all [THEN conjunct2, THEN conjunct2, THEN conjunct2, THEN conjunct1,
                      rule_format, OF ok]
  note later = all [THEN conjunct2, THEN conjunct2, THEN conjunct2, THEN conjunct2,
                    rule_format, OF imp]
  have client: "OpenAIClient (Some ''sk-key'') \<in> set (init_effects ?init)"
    using startup [THEN conjunct2, THEN conjunct2] by (simp only: keys)
  have "fst (CustomWeaviateTool_run unreachable ''quantum computing'') ! 3
          = take 4 (fst (CustomWeaviateTool_run unreachable ''quantum computing'')) ! 3"
    by simp
  also have "\<dots> = ConnectToWeaviateCloud (Some ''https://demo.weaviate.cloud'') (Some ''wv-key'')
         (Some ''sk-key'')"
    by (simp only: later [THEN conjunct2] env) simp
  finally show ?thesis
    using ok imp startup [THEN conjunct1] client later [THEN conjunct1] by blast
qed

theorem weaviate_url_is_read_during_search_counterexample:
  "init_raised (module_init strict_startup [''OPIK_API_KEY'' \<mapsto> ''opik-key''] demo_environ)
     = None
   \<and> Getenv ''WEAVIATE_CLUSTER_URL''
       \<notin> set (init_effects (module_init strict_startup [''OPIK_API_KEY'' \<mapsto> ''opik-key'']
                 demo_environ))
   \<and> Getenv ''WEAVIATE_CLUSTER_URL''
       \<in> set (fst (CustomWeaviateTool_run unreachable ''quantum computing''))"
proof -
  let ?dotenv = "[''OPIK_API_KEY'' \<mapsto> ''opik-key'']"
  have keys: "load_dotenv ?dotenv demo_environ ''OPIK_API_KEY'' = Some ''opik-key''"
    "load_dotenv ?dotenv demo_environ ''OPENAI_API_KEY'' = Some ''sk-key''"
    by (simp_all add: load_dotenv_def demo_environ_def map_add_def)
  have "init_raised (module_init strict_startup ?dotenv demo_environ) = None"
    by (simp add: module_init_def Let_def strict_startup_def keys)
  moreover have "Getenv ''WEAVIATE_CLUSTER_URL''
       \<notin> set (init_effects (module_init strict_startup ?dotenv demo_environ))"
    by (simp add: module_init_def Let_def strict_startup_def keys)
  moreover have "Getenv ''WEAVIATE_CLUSTER_URL''
       \<in> set (fst (CustomWeaviateTool_run unreachable ''quantum computing''))"
    by (simp add: CustomWeaviateTool_run_def try_block_def unreachable_def cloud_def)
  ultimately show ?thesis by blast
qed

section \<open>Properties of the crew and the page\<close>



lemma accepting_builds:
  "build_workshop (accepting run) q = Inr (WorkshopAgentsAndTasks_init q)"
  "build_crew (accepting run) self = Inr (create_workshop_crew self)"
  by (simp_all add: build_workshop_def build_crew_def accepting_def Let_def)

lemma run_block_built:
  assumes "build_workshop lib q = Inr ws" and "build_crew lib ws = Inr c"
  shows "run_block lib q =
           (case kickoff lib c of
              (crew', Inl e) \<Rightarrow>
                ([st_info running_text, new_workshop ws, new_crew c, crew_kickoff c,
                  st_error (wrong_marker @ exc_str e)], None)
            | (crew', Inr result) \<Rightarrow>
                (case tasks crew' of
                   [] \<Rightarrow>
                     ([st_info running_text, new_workshop ws, new_crew c, crew_kickoff c,
                       st_success success_text, st_markdown analyst_heading,
                       st_error (wrong_marker @ exc_str IndexError)], None)
                 | t # _ \<Rightarrow>
                     ([st_info running_text, new_workshop ws, new_crew c, crew_kickoff c,
                       st_success success_text, st_markdown analyst_heading,
                       st_markdown (py_str (task_output t)),
                       st_markdown recommender_heading, st_markdown result], None)))"
  using assms
  by (simp add: run_block_def Let_def split: prod.splits sum.splits list.splits)


lemma app_pressed:
  "q \<noteq> [] \<Longrightarrow> app lib True q = (page_head @ fst (run_block lib q), snd (run_block lib q))"
  by (simp add: app_def split: prod.splits)

lemma page_head_widgets:
  "new_workshop ws \<notin> set page_head" "new_crew c \<notin> set page_head"
  "crew_kickoff c \<notin> set page_head"
  "filter is_st_error page_head = []" "filter is_st_markdown page_head = []"
  "st_success s \<notin> set page_head" "length page_head = 4"
  by (simp_all add: page_head_def)



text \<open>
  Claim C6. With an empty query the page shows its four widgets and nothing else,
  whether or not the button was pressed: no workshop and no crew is built,
  \<^verbatim>\<open>kickoff\<close> is not called and nothing is raised, whatever the library is.
\<close>

theorem empty_query_starts_no_workflow:
  "app lib clicked [] = (page_head, None)
   \<and> new_workshop ws \<notin> set (fst (app lib clicked []))
   \<and> new_crew crew \<notin> set (fst (app lib clicked []))
   \<and> crew_kickoff crew \<notin> set (fst (app lib clicked []))"
  by (simp add: app_def page_head_def)

theorem empty_query_witness:
  "app (accepting failing_engine) True '''' =
     ([st_set_page_config ''CrewAI + Weaviate'' ''centered'', st_title page_title,
       st_text_input ''Enter a topic or query you'd like analyzed and researched:'',
       st_button ''Run Analysis''], None)"
  using empty_query_starts_no_workflow [of "accepting failing_engine" True]
  by (simp add: page_head_def)

text \<open>
  Claim C7, amended. When, after a non-empty submission, \<^verbatim>\<open>crew.kickoff()\<close> raises,
  the page shows exactly one error banner, \<^verbatim>\<open>"<cross mark> Something went wrong: "\<close>
  followed by the message of the exception as it is, and nothing leaves the script; no
  success message and no markdown section is shown, so an analyst output the engine had
  already computed is not displayed. An exception raised while the workshop or the crew
  is constructed (lines 151-152, before the \<^verbatim>\<open>try\<close>) is not caught: it leaves the
  script and no banner is shown.

  As first stated the claim has every error after a non-empty submission caught and
  shown as a banner. In the counterexample the \<^verbatim>\<open>Agent\<close> constructor raises.
\<close>

theorem kickoff_error_shows_one_banner:
  assumes "q \<noteq> []"
  shows "(build_workshop lib q = Inr workshop \<longrightarrow> build_crew lib workshop = Inr crew \<longrightarrow>
          snd (kickoff lib crew) = Inl e \<longrightarrow>
            app lib True q
              = (page_head @ [st_info running_text, new_workshop workshop, new_crew crew,
                              crew_kickoff crew, st_error (wrong_marker @ exc_str e)], None)
          \<and> filter is_st_error (fst (app lib True q)) = [st_error (wrong_marker @ exc_str e)]
          \<and> filter is_st_markdown (fst (app lib True q)) = []
          \<and> st_success success_text \<notin> set (fst (app lib True q)))
       \<and> (build_workshop lib q = Inl e \<longrightarrow>
            app lib True q = (page_head @ [st_info running_text], Some e))
       \<and> (build_workshop lib q = Inr workshop \<longrightarrow> build_crew lib workshop = Inl e \<longrightarrow>
            app lib True q
              = (page_head @ [st_info running_text, new_workshop workshop], Some e))"
proof (intro conjI impI)
  assume built: "build_workshop lib q = Inr workshop" "build_crew lib workshop = Inr crew"
    and fails: "snd (kickoff lib crew) = Inl e"
  from fails have "run_block lib q
           = ([st_info running_text, new_workshop workshop, new_crew crew,
               crew_kickoff crew, st_error (wrong_marker @ exc_str e)], None)"
    by (cases "kickoff lib crew") (simp add: run_block_built [OF built])
  with assms show shown: "app lib True q
           = (page_head @ [st_info running_text, new_workshop workshop, new_crew crew,
                           crew_kickoff crew, st_error (wrong_marker @ exc_str e)], None)"
    by (simp add: app_pressed)
  show "filter is_st_error (fst (app lib True q)) = [st_error (wrong_marker @ exc_str e)]"
    by (simp add: shown page_head_widgets)
  show "filter is_st_markdown (fst (app lib True q)) = []"
    by (simp add: shown page_head_widgets)
  show "st_success success_text \<notin> set (fst (app lib True q))"
    by (simp add: shown page_head_widgets)
next
  assume "build_workshop lib q = Inl e"
  with assms show "app lib True q = (page_head @ [st_info running_text], Some e)"
    by (simp add: app_pressed run_block_def)
next
  assume "build_workshop lib q = Inr workshop" "build_crew lib workshop = Inl e"
  with assms show "app lib True q
              = (page_head @ [st_info running_text, new_workshop workshop], Some e)"
    by (simp add: app_pressed run_block_def)
qed

theorem kickoff_error_witness:
  "snd (failing_engine (create_workshop_crew (WorkshopAgentsAndTasks_init ''quantum computing'')))
     = Inl (PyException ''RateLimitError'' ''rate limit reached'')
   \<and> map task_output
        (tasks (fst (failing_engine
           (create_workshop_crew (WorkshopAgentsAndTasks_init ''quantum computing'')))))
       = [Some ''three trends'', None]
   \<and> snd (app (accepting failing_engine) True ''quantum computing'') = None
   \<and> filter is_st_error (fst (app (accepting failing_engine) True ''quantum computing''))
       = [st_error (wrong_marker @ ''rate limit reached'')]
   \<and> filter is_st_markdown (fst (app (accepting failing_engine) True ''quantum computing''))
       = []"
proof -
  let ?q = "''quantum computing''"
  let ?lib = "accepting failing_engine"
  let ?ws = "WorkshopAgentsAndTasks_init ?q"
  let ?crew = "create_workshop_crew ?ws"
  have ne: "?q \<noteq> []" by simp
  have bw: "build_workshop ?lib ?q = Inr ?ws"
    and bc: "build_crew ?lib ?ws = Inr ?crew"
    by (rule accepting_builds)+
  have fails: "snd (failing_engine ?crew) = Inl (PyException ''RateLimitError'' ''rate limit reached'')"
    by (simp add: failing_engine_def)
  then have fails': "snd (kickoff ?lib ?crew)
      = Inl (PyException ''RateLimitError'' ''rate limit reached'')"
    by (simp add: accepting_def)
  have outs: "map task_output (tasks (fst (failing_engine ?crew))) = [Some ''three trends'', None]"
    by (simp add: failing_engine_def create_workshop_crew_def create_data_analysis_task_def
          create_resource_recommendation_task_def)
  note all = kickoff_error_shows_one_banner
               [where q = ?q and lib = ?lib, OF ne, THEN conjunct1, rule_format,
                OF bw bc fails']
  have "snd (app ?lib True ?q) = None"
    using all [THEN conjunct1] by simp
  moreover have "filter is_st_error (fst (app ?lib True ?q))
          = [st_error (wrong_marker @ ''rate limit reached'')]"
    using all [THEN conjunct2, THEN conjunct1] by simp
  moreover have "filter is_st_markdown (fst (app ?lib True ?q)) = []"
    using all [THEN conjunct2, THEN conjunct2, THEN conjunct1] .
  ultimately show ?thesis
    using fails outs by blast
qed

theorem constructor_error_is_not_caught_counterexample:
  "''quantum computing'' \<noteq> []
   \<and> build_workshop (rejecting_agents idle_engine) ''quantum computing'' = Inl validation_error
   \<and> app (rejecting_agents idle_engine) True ''quantum computing''
       = (page_head @ [st_info running_text], Some validation_error)
   \<and> filter is_st_error (fst (app (rejecting_agents idle_engine) True ''quantum computing''))
       = []"
  by (simp add: app_def run_block_def build_workshop_def rejecting_agents_def accepting_def
        Let_def page_head_def)

end
